theory Spec2Isabelle
  imports Main
begin

section \<open>Data model\<close>

text \<open>
  A shallow embedding of the todo front end: the state controller of
  \<^verbatim>\<open>todo_frontend/src/App.js\<close>, the inline editor of the todo row component and the
  HTTP wrapper of \<^verbatim>\<open>todo_frontend/src/api/client.js\<close>.

  JavaScript strings are modelled by \<^typ>\<open>string\<close>: a character stands for a UTF-16 code
  unit below 256. A todo is the object \<^verbatim>\<open>{id, title, completed}\<close> the backend returns;
  the field \<^verbatim>\<open>id\<close> is named \<open>todo_id\<close> here, because \<open>id\<close> is the identity function
  of HOL.
\<close>

record todo =
  todo_id :: int
  title :: string
  completed :: bool

text \<open>
  The component state of \<^verbatim>\<open>App\<close>, one field per \<^verbatim>\<open>useState\<close> hook. The field
  \<^verbatim>\<open>filter\<close> is named \<open>filter_st\<close> (\<open>filter\<close> is the list function of HOL).
\<close>

record app_state =
  todos :: "todo list"
  filter_st :: string
  newTitle :: string
  loading :: bool
  mutating :: bool
  error :: string

text \<open>The initial values given to the \<^verbatim>\<open>useState\<close> hooks.\<close>

definition init_state :: app_state where
  "init_state =
     \<lparr>todos = [], filter_st = ''all'', newTitle = '''', loading = True,
      mutating = False, error = ''''\<rparr>"

definition FILTERS :: "string list" where
  "FILTERS = [''all'', ''active'', ''completed'']"

text \<open>
  What a rejected promise carries: an \<^verbatim>\<open>Error\<close> object with its message, or any other
  thrown value. \<open>err_message e fallback\<close> is the expression
  \<^verbatim>\<open>e instanceof Error ? e.message : fallback\<close> of every handler's \<^verbatim>\<open>catch\<close> block.
\<close>

datatype thrown = JsError string | NonError

fun err_message :: "thrown \<Rightarrow> string \<Rightarrow> string" where
  "err_message (JsError m) fallback = m"
| "err_message NonError fallback = fallback"

text \<open>
  The calls of the API client that the controller awaits, with their arguments.
\<close>

datatype api_call =
    ListTodos
  | CreateTodo string
  | UpdateTodo int string bool
  | DeleteTodo int
  | ToggleTodo int

text \<open>
  What the list call resolves to. The request wrapper resolves to \<^verbatim>\<open>null\<close> for a
  response with status 204, and to the parsed body otherwise (which is \<^verbatim>\<open>null\<close> too
  when the body is the JSON text \<^verbatim>\<open>null\<close>). A value that is not
  \<^verbatim>\<open>null\<close> is read as an object: its \<^verbatim>\<open>items\<close> field is a list of todos, or is
  absent (\<open>None\<close>; a value with no such field, or with a falsy one, reads the same).
\<close>

record list_result =
  items :: "todo list option"
  list_total :: int

datatype list_data = NullData | ObjectData list_result

text \<open>
  Reading a property of \<^verbatim>\<open>null\<close> throws a \<^verbatim>\<open>TypeError\<close>. Its message is the
  engine's; this is the text of V8.
\<close>

definition null_items_message :: string where
  "null_items_message =
     ''Cannot read properties of null (reading '' @ [CHR 0x27] @ ''items'' @ [CHR 0x27] @ '')''"

text \<open>The expression \<^verbatim>\<open>data.items\<close>.\<close>

fun read_items :: "list_data \<Rightarrow> thrown + todo list option" where
  "read_items NullData = Inl (JsError null_items_message)"
| "read_items (ObjectData d) = Inr (items d)"

text \<open>
  What a handler has in hand when it suspends at its \<^verbatim>\<open>await\<close>: the call it issued and
  the \<^verbatim>\<open>prevTodos\<close> it captured.
\<close>

record pending =
  call :: api_call
  snapshot :: "todo list"

section \<open>Strings\<close>

text \<open>
  \<^verbatim>\<open>String.prototype.trim\<close> strips white space and line terminators from both ends.
  Among the code units below 256 these are TAB, LF, VT, FF, CR, SPACE and NBSP.
\<close>

definition is_ws :: "char \<Rightarrow> bool" where
  "is_ws c \<longleftrightarrow>
     c = CHR 0x09 \<or> c = CHR 0x0A \<or> c = CHR 0x0B \<or> c = CHR 0x0C \<or>
     c = CHR 0x0D \<or> c = CHR 0x20 \<or> c = CHR 0xA0"

definition trim :: "string \<Rightarrow> string" where
  "trim s = rev (dropWhile is_ws (rev (dropWhile is_ws s)))"

section \<open>Derived views\<close>

text \<open>The two \<^verbatim>\<open>useMemo\<close> values of \<^verbatim>\<open>App\<close>, and the filter buttons' click handler.\<close>

definition filteredTodos :: "app_state \<Rightarrow> todo list" where
  "filteredTodos s =
     (if filter_st s = ''active'' then filter (\<lambda>t. \<not> completed t) (todos s)
      else if filter_st s = ''completed'' then filter (\<lambda>t. completed t) (todos s)
      else todos s)"

record counts_view =
  total :: nat
  active :: nat
  completed_cnt :: nat

definition counts :: "app_state \<Rightarrow> counts_view" where
  "counts s =
     (let n_total = length (todos s);
          n_completed = length (filter (\<lambda>t. completed t) (todos s));
          n_active = n_total - n_completed
      in \<lparr>total = n_total, active = n_active, completed_cnt = n_completed\<rparr>)"

definition setFilter :: "app_state \<Rightarrow> string \<Rightarrow> app_state" where
  "setFilter s f = s\<lparr>filter_st := f\<rparr>"

definition setNewTitle :: "app_state \<Rightarrow> string \<Rightarrow> app_state" where
  "setNewTitle s v = s\<lparr>newTitle := v\<rparr>"

section \<open>The handlers of the state controller\<close>

text \<open>
  Every handler is an \<^verbatim>\<open>async\<close> function with one \<^verbatim>\<open>await\<close>. It is modelled in
  two parts: \<open>_begin\<close> is the code up to the \<^verbatim>\<open>await\<close> (it returns the state and the
  call issued), \<open>_settle\<close> is the code after it, run on the state of that moment with
  the outcome of the call: \<open>Inr v\<close> when the promise resolved to \<open>v\<close>, \<open>Inl e\<close> when it
  rejected with \<open>e\<close>. The function named as the handler runs both, with nothing in
  between. A state setter given a function (\<^verbatim>\<open>setTodos((prev) => ...)\<close>) reads the state
  of the moment it runs; the variable \<^verbatim>\<open>todos\<close> read in a handler is the state at its
  start. The controller reads what a call resolves to as a todo (as an object with an
  \<^verbatim>\<open>items\<close> field for the list call) without checking it, and the model gives the
  outcome that type.
\<close>

subsection \<open>refresh\<close>

definition refresh_begin :: "app_state \<Rightarrow> app_state \<times> api_call" where
  "refresh_begin s =
     (let s1 = s\<lparr>error := ''''\<rparr>;
          s2 = s1\<lparr>loading := True\<rparr>
      in (s2, ListTodos))"

text \<open>
  The \<^verbatim>\<open>try\<close> block holds the call and the line \<^verbatim>\<open>setTodos(data.items || [])\<close>:
  what either throws goes to the \<^verbatim>\<open>catch\<close> block. \<open>refresh_try\<close> is the outcome of
  the block, the list to store or what was thrown.
\<close>

definition refresh_try :: "thrown + list_data \<Rightarrow> thrown + todo list" where
  "refresh_try r =
     (case r of
        Inl e \<Rightarrow> Inl e
      | Inr data \<Rightarrow>
          (case read_items data of
             Inl e \<Rightarrow> Inl e
           | Inr (Some xs) \<Rightarrow> Inr xs
           | Inr None \<Rightarrow> Inr []))"

definition refresh_settle :: "app_state \<Rightarrow> thrown + list_data \<Rightarrow> app_state" where
  "refresh_settle s r =
     (let s1 = (case refresh_try r of
                  Inr xs \<Rightarrow> s\<lparr>todos := xs\<rparr>
                | Inl e \<Rightarrow> s\<lparr>error := err_message e ''Failed to load todos''\<rparr>)
      in s1\<lparr>loading := False\<rparr>)"

definition refresh :: "app_state \<Rightarrow> thrown + list_data \<Rightarrow> app_state" where
  "refresh s r = refresh_settle (fst (refresh_begin s)) r"

subsection \<open>handleAdd\<close>

text \<open>
  The first line, \<^verbatim>\<open>e.preventDefault()\<close>, acts on the browser's submit event and
  on no state; the guard on the trimmed title comes before any setter.
\<close>

definition handleAdd_begin :: "app_state \<Rightarrow> app_state \<times> api_call option" where
  "handleAdd_begin s =
     (let ttl = trim (newTitle s) in
      if ttl = '''' then (s, None)
      else
        (let s1 = s\<lparr>error := ''''\<rparr>;
             s2 = s1\<lparr>mutating := True\<rparr>
         in (s2, Some (CreateTodo ttl))))"

definition handleAdd_settle :: "app_state \<Rightarrow> thrown + todo \<Rightarrow> app_state" where
  "handleAdd_settle s r =
     (let s1 = (case r of
                  Inr created \<Rightarrow> s\<lparr>todos := created # todos s, newTitle := ''''\<rparr>
                | Inl err \<Rightarrow> s\<lparr>error := err_message err ''Failed to add todo''\<rparr>)
      in s1\<lparr>mutating := False\<rparr>)"

definition handleAdd :: "app_state \<Rightarrow> thrown + todo \<Rightarrow> app_state" where
  "handleAdd s r =
     (case handleAdd_begin s of
        (s', None) \<Rightarrow> s'
      | (s', Some c) \<Rightarrow> handleAdd_settle s' r)"

subsection \<open>handleToggle\<close>

definition handleToggle_begin :: "app_state \<Rightarrow> int \<Rightarrow> app_state \<times> pending" where
  "handleToggle_begin s i =
     (let s1 = s\<lparr>error := ''''\<rparr>;
          prevTodos = todos s;
          s2 = s1\<lparr>todos :=
                 map (\<lambda>t. if todo_id t = i then t\<lparr>completed := \<not> completed t\<rparr> else t)
                   (todos s1)\<rparr>;
          s3 = s2\<lparr>mutating := True\<rparr>
      in (s3, \<lparr>call = ToggleTodo i, snapshot = prevTodos\<rparr>))"

definition handleToggle_settle ::
    "int \<Rightarrow> todo list \<Rightarrow> app_state \<Rightarrow> thrown + todo \<Rightarrow> app_state" where
  "handleToggle_settle i prevTodos s r =
     (let s1 = (case r of
                  Inr updated \<Rightarrow>
                    s\<lparr>todos := map (\<lambda>t. if todo_id t = i then updated else t) (todos s)\<rparr>
                | Inl err \<Rightarrow>
                    s\<lparr>todos := prevTodos, error := err_message err ''Failed to toggle todo''\<rparr>)
      in s1\<lparr>mutating := False\<rparr>)"

definition handleToggle :: "app_state \<Rightarrow> int \<Rightarrow> thrown + todo \<Rightarrow> app_state" where
  "handleToggle s i r =
     (case handleToggle_begin s i of
        (s', p) \<Rightarrow> handleToggle_settle i (snapshot p) s' r)"

subsection \<open>handleDelete\<close>

definition handleDelete_begin :: "app_state \<Rightarrow> int \<Rightarrow> app_state \<times> pending" where
  "handleDelete_begin s i =
     (let s1 = s\<lparr>error := ''''\<rparr>;
          prevTodos = todos s;
          s2 = s1\<lparr>todos := filter (\<lambda>t. todo_id t \<noteq> i) (todos s1)\<rparr>;
          s3 = s2\<lparr>mutating := True\<rparr>
      in (s3, \<lparr>call = DeleteTodo i, snapshot = prevTodos\<rparr>))"

definition handleDelete_settle ::
    "todo list \<Rightarrow> app_state \<Rightarrow> thrown + unit \<Rightarrow> app_state" where
  "handleDelete_settle prevTodos s r =
     (let s1 = (case r of
                  Inr u \<Rightarrow> s
                | Inl err \<Rightarrow>
                    s\<lparr>todos := prevTodos, error := err_message err ''Failed to delete todo''\<rparr>)
      in s1\<lparr>mutating := False\<rparr>)"

definition handleDelete :: "app_state \<Rightarrow> int \<Rightarrow> thrown + unit \<Rightarrow> app_state" where
  "handleDelete s i r =
     (case handleDelete_begin s i of
        (s', p) \<Rightarrow> handleDelete_settle (snapshot p) s' r)"

subsection \<open>handleUpdateTitle\<close>

text \<open>
  The only handler that returns early after touching the state, and the only one that
  throws again what it caught: the second component of the result of \<open>_settle\<close> is
  how the promise of the handler ends (\<open>Inl e\<close>: rejected with \<open>e\<close>).
\<close>

definition handleUpdateTitle_begin ::
    "app_state \<Rightarrow> int \<Rightarrow> string \<Rightarrow> app_state \<times> pending option" where
  "handleUpdateTitle_begin s i ttl =
     (let s1 = s\<lparr>error := ''''\<rparr> in
      case find (\<lambda>t. todo_id t = i) (todos s) of
        None \<Rightarrow> (s1, None)
      | Some existing \<Rightarrow>
          (let prevTodos = todos s;
               s2 = s1\<lparr>todos :=
                      map (\<lambda>t. if todo_id t = i then t\<lparr>title := ttl\<rparr> else t) (todos s1)\<rparr>;
               s3 = s2\<lparr>mutating := True\<rparr>
           in (s3, Some \<lparr>call = UpdateTodo i ttl (completed existing),
                         snapshot = prevTodos\<rparr>)))"

definition handleUpdateTitle_settle ::
    "int \<Rightarrow> todo list \<Rightarrow> app_state \<Rightarrow> thrown + todo \<Rightarrow> app_state \<times> (thrown + unit)" where
  "handleUpdateTitle_settle i prevTodos s r =
     (case r of
        Inr updated \<Rightarrow>
          (s\<lparr>todos := map (\<lambda>t. if todo_id t = i then updated else t) (todos s),
             mutating := False\<rparr>,
           Inr ())
      | Inl err \<Rightarrow>
          (s\<lparr>todos := prevTodos, error := err_message err ''Failed to update todo'',
             mutating := False\<rparr>,
           Inl err))"

definition handleUpdateTitle ::
    "app_state \<Rightarrow> int \<Rightarrow> string \<Rightarrow> thrown + todo \<Rightarrow> app_state \<times> (thrown + unit)" where
  "handleUpdateTitle s i ttl r =
     (case handleUpdateTitle_begin s i ttl of
        (s', None) \<Rightarrow> (s', Inr ())
      | (s', Some p) \<Rightarrow> handleUpdateTitle_settle i (snapshot p) s' r)"

section \<open>The row component's inline editor\<close>

text \<open>
  The state of one \<^verbatim>\<open>TodoItem\<close>. \<open>commitEdit it td s r\<close> runs the editor's commit with
  the row's todo \<open>td\<close> and with \<^verbatim>\<open>onUpdateTitle\<close> bound to \<open>handleUpdateTitle\<close> on the
  controller state \<open>s\<close>, as \<^verbatim>\<open>App\<close> passes it. It returns the row's state, the
  controller's state, the call issued if any, and how the promise of the commit ends:
  when \<^verbatim>\<open>onUpdateTitle\<close> rejects, the line after the \<^verbatim>\<open>await\<close> does not run.
\<close>

record item_state =
  isEditing :: bool
  draftTitle :: string

definition commitEdit ::
    "item_state \<Rightarrow> todo \<Rightarrow> app_state \<Rightarrow> thrown + todo
       \<Rightarrow> item_state \<times> app_state \<times> api_call option \<times> (thrown + unit)" where
  "commitEdit it td s r =
     (let nextTitle = trim (draftTitle it) in
      if nextTitle = '''' then (it, s, None, Inr ())
      else if nextTitle = title td then (it\<lparr>isEditing := False\<rparr>, s, None, Inr ())
      else
        (let issued = map_option call (snd (handleUpdateTitle_begin s (todo_id td) nextTitle)) in
         case handleUpdateTitle s (todo_id td) nextTitle r of
           (s', Inl e) \<Rightarrow> (it, s', issued, Inl e)
         | (s', Inr u) \<Rightarrow> (it\<lparr>isEditing := False\<rparr>, s', issued, Inr ())))"

section \<open>Sequences of user actions\<close>

text \<open>
  A user action together with the outcome of the network call it leads to (the outcome
  is not looked at when the handler issues no call).
\<close>

datatype event =
    Refresh "thrown + list_data"
  | Add "thrown + todo"
  | Toggle int "thrown + todo"
  | Delete int "thrown + unit"
  | UpdateTitle int string "thrown + todo"
  | TypeNewTitle string
  | SelectFilter string

fun step :: "app_state \<Rightarrow> event \<Rightarrow> app_state" where
  "step s (Refresh r) = refresh s r"
| "step s (Add r) = handleAdd s r"
| "step s (Toggle i r) = handleToggle s i r"
| "step s (Delete i r) = handleDelete s i r"
| "step s (UpdateTitle i ttl r) = fst (handleUpdateTitle s i ttl r)"
| "step s (TypeNewTitle v) = setNewTitle s v"
| "step s (SelectFilter f) = setFilter s f"

fun run :: "app_state \<Rightarrow> event list \<Rightarrow> app_state" where
  "run s [] = s"
| "run s (e # es) = run (step s e) es"

text \<open>The call an action issues in a state, if it issues one.\<close>

fun issued_call :: "app_state \<Rightarrow> event \<Rightarrow> api_call option" where
  "issued_call s (Refresh r) = Some (snd (refresh_begin s))"
| "issued_call s (Add r) = snd (handleAdd_begin s)"
| "issued_call s (Toggle i r) = Some (call (snd (handleToggle_begin s i)))"
| "issued_call s (Delete i r) = Some (call (snd (handleDelete_begin s i)))"
| "issued_call s (UpdateTitle i ttl r) = map_option call (snd (handleUpdateTitle_begin s i ttl))"
| "issued_call s (TypeNewTitle v) = None"
| "issued_call s (SelectFilter f) = None"

text \<open>The network call of an action succeeded: its outcome is a resolved promise.\<close>

fun succeeds :: "event \<Rightarrow> bool" where
  "succeeds (Refresh r) = (\<not> isl r)"
| "succeeds (Add r) = (\<not> isl r)"
| "succeeds (Toggle i r) = (\<not> isl r)"
| "succeeds (Delete i r) = (\<not> isl r)"
| "succeeds (UpdateTitle i ttl r) = (\<not> isl r)"
| "succeeds (TypeNewTitle v) = True"
| "succeeds (SelectFilter f) = True"

section \<open>JSON values and their conversions to strings\<close>

text \<open>
  A value as \<^verbatim>\<open>JSON.parse\<close> returns it. Numbers are integers here (fractions and
  exponents are outside the model); an object is the list of its properties in
  enumeration order.
\<close>

datatype json =
    JNull
  | JBool bool
  | JNum int
  | JStr string
  | JArr "json list"
  | JObj "(string \<times> json) list"

text \<open>
  The conversion of a number to a string, \<^verbatim>\<open>String(n)\<close> or a template literal, for
  an integer: its decimal digits, with a minus sign when it is negative.
\<close>

definition digit_char :: "nat \<Rightarrow> char" where
  "digit_char d = ''0123456789abcdef'' ! d"

fun show_nat :: "nat \<Rightarrow> string" where
  "show_nat n = (if n < 10 then [digit_char n] else show_nat (n div 10) @ [digit_char (n mod 10)])"

declare show_nat.simps [simp del]

definition show_int :: "int \<Rightarrow> string" where
  "show_int n = (if n < 0 then CHR ''-'' # show_nat (nat (- n)) else show_nat (nat n))"

text \<open>\<^verbatim>\<open>Array.prototype.join\<close>, on strings.\<close>

fun join :: "string \<Rightarrow> string list \<Rightarrow> string" where
  "join sep [] = ''''"
| "join sep [x] = x"
| "join sep (x # y # ys) = x @ sep @ join sep (y # ys)"

text \<open>
  The quoting of a string by \<^verbatim>\<open>JSON.stringify\<close>: the double quote is code unit 0x22,
  the backslash 0x5C.
\<close>

definition quote_char :: "char \<Rightarrow> string" where
  "quote_char c =
     (if c = CHR 0x08 then [CHR 0x5C, CHR ''b'']
      else if c = CHR 0x09 then [CHR 0x5C, CHR ''t'']
      else if c = CHR 0x0A then [CHR 0x5C, CHR ''n'']
      else if c = CHR 0x0C then [CHR 0x5C, CHR ''f'']
      else if c = CHR 0x0D then [CHR 0x5C, CHR ''r'']
      else if c = CHR 0x22 then [CHR 0x5C, CHR 0x22]
      else if c = CHR 0x5C then [CHR 0x5C, CHR 0x5C]
      else if (of_char c :: nat) < 32 then
        [CHR 0x5C, CHR ''u'', CHR ''0'', CHR ''0'',
         digit_char (of_char c div 16), digit_char (of_char c mod 16)]
      else [c])"

definition quote_string :: "string \<Rightarrow> string" where
  "quote_string s = [CHR 0x22] @ concat (map quote_char s) @ [CHR 0x22]"

fun JSON_stringify :: "json \<Rightarrow> string" where
  "JSON_stringify JNull = ''null''"
| "JSON_stringify (JBool b) = (if b then ''true'' else ''false'')"
| "JSON_stringify (JNum n) = show_int n"
| "JSON_stringify (JStr s) = quote_string s"
| "JSON_stringify (JArr xs) = ''['' @ join '','' (map JSON_stringify xs) @ '']''"
| "JSON_stringify (JObj ps) =
     ''{'' @ join '','' (map (\<lambda>p. quote_string (fst p) @ '':'' @ JSON_stringify (snd p)) ps) @ ''}''"

text \<open>
  The conversion \<^verbatim>\<open>String(v)\<close>: a string is itself, an array joins its elements with
  commas (\<^verbatim>\<open>null\<close> elements as empty strings), an object is a fixed text.
\<close>

fun js_String :: "json \<Rightarrow> string" where
  "js_String JNull = ''null''"
| "js_String (JBool b) = (if b then ''true'' else ''false'')"
| "js_String (JNum n) = show_int n"
| "js_String (JStr s) = s"
| "js_String (JArr xs) = join '','' (map (\<lambda>x. if x = JNull then '''' else js_String x) xs)"
| "js_String (JObj ps) = ''[object Object]''"

text \<open>Reading a property of a parsed value: only an object has the properties it lists.\<close>

fun get_prop :: "json \<Rightarrow> string \<Rightarrow> json option" where
  "get_prop (JObj ps) k = map_of ps k"
| "get_prop v k = None"

text \<open>The test \<^verbatim>\<open>data && typeof data === "object"\<close>: true of objects and arrays.\<close>

fun is_object :: "json \<Rightarrow> bool" where
  "is_object (JObj ps) = True"
| "is_object (JArr xs) = True"
| "is_object v = False"

text \<open>The test \<^verbatim>\<open>typeof v === "string"\<close> on a property that may be absent.\<close>

fun string_value :: "json option \<Rightarrow> string option" where
  "string_value (Some (JStr d)) = Some d"
| "string_value v = None"

section \<open>The API client\<close>

text \<open>
  What \<^verbatim>\<open>fetch\<close> is called with and what it resolves to. A response is \<^verbatim>\<open>ok\<close> when
  its status is in the range 200 to 299. \<open>body_json\<close> is the outcome of
  \<^verbatim>\<open>response.json()\<close>: the parsed body, or the error thrown when the body is not JSON.
  Header objects are maps; \<open>++\<close> is the object spread (the right side wins). The
  option \<^verbatim>\<open>method\<close> is the field \<open>http_method\<close>.
\<close>

record request_options =
  http_method :: "string option"
  body :: "string option"
  headers :: "(string \<rightharpoonup> string) option"

record fetch_request =
  req_url :: string
  req_method :: "string option"
  req_headers :: "string \<rightharpoonup> string"
  req_body :: "string option"

record response =
  status :: nat
  statusText :: string
  body_json :: "thrown + json"

definition ok :: "response \<Rightarrow> bool" where
  "ok res \<longleftrightarrow> 200 \<le> status res \<and> status res \<le> 299"

definition API_BASE_URL :: string where
  "API_BASE_URL = ''http://localhost:3001''"

definition no_options :: request_options where
  "no_options = \<lparr>http_method = None, body = None, headers = None\<rparr>"

definition parseErrorBody :: "response \<Rightarrow> string" where
  "parseErrorBody res =
     (case body_json res of
        Inr data \<Rightarrow>
          (if is_object data then
             (case string_value (get_prop data ''detail'') of
                Some d \<Rightarrow> d
              | None \<Rightarrow> JSON_stringify data)
           else js_String data)
      | Inl e \<Rightarrow> (if statusText res \<noteq> '''' then statusText res else ''Request failed''))"

definition request_init :: "string \<Rightarrow> request_options \<Rightarrow> fetch_request" where
  "request_init path options =
     (let merged =
            [''Accept'' \<mapsto> ''application/json'']
            ++ (if body options \<noteq> None \<and> body options \<noteq> Some ''''
                then [''Content-Type'' \<mapsto> ''application/json''] else Map.empty)
            ++ (case headers options of Some h \<Rightarrow> h | None \<Rightarrow> Map.empty)
      in \<lparr>req_url = API_BASE_URL @ path,
          req_method = http_method options,
          req_headers = (case headers options of Some h \<Rightarrow> h | None \<Rightarrow> merged),
          req_body = body options\<rparr>)"

definition request_settle :: "response \<Rightarrow> thrown + json" where
  "request_settle res =
     (if \<not> ok res then Inl (JsError (parseErrorBody res))
      else if status res = 204 then Inr JNull
      else body_json res)"

definition request ::
    "(fetch_request \<Rightarrow> thrown + response) \<Rightarrow> string \<Rightarrow> request_options \<Rightarrow> thrown + json" where
  "request fetch path options =
     (case fetch (request_init path options) of
        Inl e \<Rightarrow> Inl e
      | Inr res \<Rightarrow> request_settle res)"

definition listTodos :: "(fetch_request \<Rightarrow> thrown + response) \<Rightarrow> thrown + json" where
  "listTodos fetch = request fetch ''/todos'' no_options"

definition createTodo ::
    "(fetch_request \<Rightarrow> thrown + response) \<Rightarrow> string \<Rightarrow> thrown + json" where
  "createTodo fetch ttl =
     request fetch ''/todos''
       \<lparr>http_method = Some ''POST'',
        body = Some (JSON_stringify (JObj [(''title'', JStr ttl), (''completed'', JBool False)])),
        headers = None\<rparr>"

definition updateTodo ::
    "(fetch_request \<Rightarrow> thrown + response) \<Rightarrow> int \<Rightarrow> string \<Rightarrow> bool \<Rightarrow> thrown + json" where
  "updateTodo fetch i ttl c =
     request fetch (''/todos/'' @ show_int i)
       \<lparr>http_method = Some ''PUT'',
        body = Some (JSON_stringify (JObj [(''title'', JStr ttl), (''completed'', JBool c)])),
        headers = None\<rparr>"

definition deleteTodo ::
    "(fetch_request \<Rightarrow> thrown + response) \<Rightarrow> int \<Rightarrow> thrown + json" where
  "deleteTodo fetch i =
     request fetch (''/todos/'' @ show_int i)
       \<lparr>http_method = Some ''DELETE'', body = None, headers = None\<rparr>"

definition toggleTodo ::
    "(fetch_request \<Rightarrow> thrown + response) \<Rightarrow> int \<Rightarrow> thrown + json" where
  "toggleTodo fetch i =
     request fetch (''/todos/'' @ show_int i @ ''/toggle'')
       \<lparr>http_method = Some ''PATCH'', body = None, headers = None\<rparr>"

text \<open>The client function each call of the controller stands for.\<close>

fun perform :: "(fetch_request \<Rightarrow> thrown + response) \<Rightarrow> api_call \<Rightarrow> thrown + json" where
  "perform fetch ListTodos = listTodos fetch"
| "perform fetch (CreateTodo ttl) = createTodo fetch ttl"
| "perform fetch (UpdateTodo i ttl c) = updateTodo fetch i ttl c"
| "perform fetch (DeleteTodo i) = deleteTodo fetch i"
| "perform fetch (ToggleTodo i) = toggleTodo fetch i"

section \<open>The properties of the specification, as definitions\<close>

text \<open>
  The record the server confirmed last for each id, followed along a sequence of
  actions: a list confirms exactly its items (for an id that occurs twice, the first of
  them), a create, toggle or update confirms the record it returns, a delete confirms
  that the id is gone. An action that issued no call or whose call failed confirms
  nothing, and neither does a list call that resolved to \<^verbatim>\<open>null\<close>.
\<close>

fun confirm :: "app_state \<Rightarrow> (int \<rightharpoonup> todo) \<Rightarrow> event \<Rightarrow> (int \<rightharpoonup> todo)" where
  "confirm s m (Refresh (Inr (ObjectData d))) =
     map_of (map (\<lambda>t. (todo_id t, t)) (case items d of Some xs \<Rightarrow> xs | None \<Rightarrow> []))"
| "confirm s m (Add (Inr c)) =
     (if issued_call s (Add (Inr c)) = None then m else m(todo_id c \<mapsto> c))"
| "confirm s m (Toggle i (Inr u)) = m(todo_id u \<mapsto> u)"
| "confirm s m (Delete i (Inr x)) = m(i := None)"
| "confirm s m (UpdateTitle i ttl (Inr u)) =
     (if issued_call s (UpdateTitle i ttl (Inr u)) = None then m else m(todo_id u \<mapsto> u))"
| "confirm s m ev = m"

fun confirmed_after :: "app_state \<Rightarrow> (int \<rightharpoonup> todo) \<Rightarrow> event list \<Rightarrow> (int \<rightharpoonup> todo)" where
  "confirmed_after s m [] = m"
| "confirmed_after s m (e # es) = confirmed_after (step s e) (confirm s m e) es"

text \<open>
  The contract of the backend, for the response to an action taken in state \<open>s\<close>: the
  items of a list have pairwise different ids, a created todo has an id the list does
  not hold, and the record returned by a toggle or an update has the id asked for.
\<close>

fun respects_contract :: "app_state \<Rightarrow> event \<Rightarrow> bool" where
  "respects_contract s (Refresh (Inr (ObjectData d))) =
     distinct (map todo_id (case items d of Some xs \<Rightarrow> xs | None \<Rightarrow> []))"
| "respects_contract s (Add (Inr c)) = (todo_id c \<notin> todo_id ` set (todos s))"
| "respects_contract s (Toggle i (Inr u)) = (todo_id u = i)"
| "respects_contract s (UpdateTitle i ttl (Inr u)) = (todo_id u = i)"
| "respects_contract s ev = True"

text \<open>
  A toggle is taken on a todo of the list, as the button of a row does. (The handler
  itself does not look: for any other id it still issues the call.)
\<close>

fun acts_on_held :: "app_state \<Rightarrow> event \<Rightarrow> bool" where
  "acts_on_held s (Toggle i r) = (i \<in> todo_id ` set (todos s))"
| "acts_on_held s ev = True"

fun well_behaved :: "app_state \<Rightarrow> event list \<Rightarrow> bool" where
  "well_behaved s [] = True"
| "well_behaved s (e # es) =
     (succeeds e \<and> respects_contract s e \<and> acts_on_held s e
      \<and> well_behaved (step s e) es)"

text \<open>
  The message of a failed request in the priority order of the specification, word for
  word: the \<^verbatim>\<open>detail\<close> field of a JSON body if present, else the serialized JSON body,
  else, for a body that is not JSON, the status text, and a fixed text when that is empty.
\<close>

definition spec_error_message :: "response \<Rightarrow> string" where
  "spec_error_message res =
     (case body_json res of
        Inr data \<Rightarrow>
          (case get_prop data ''detail'' of
             Some d \<Rightarrow> js_String d
           | None \<Rightarrow> JSON_stringify data)
      | Inl e \<Rightarrow> (if statusText res = '''' then ''Request failed'' else statusText res))"

section \<open>Example values\<close>

text \<open>
  The todo of the scenarios of the specification, a second one, and a state that holds
  both after a first load.
\<close>

definition milk :: todo where
  "milk = \<lparr>todo_id = 1, title = ''Buy milk'', completed = False\<rparr>"

definition bread :: todo where
  "bread = \<lparr>todo_id = 2, title = ''Bake bread'', completed = True\<rparr>"

definition two_todos :: app_state where
  "two_todos = init_state\<lparr>todos := [milk, bread], loading := False\<rparr>"

text \<open>The same state while it shows the message of an earlier failure.\<close>

definition after_failure :: app_state where
  "after_failure = two_todos\<lparr>error := ''Not Found''\<rparr>"

text \<open>Two todos are created one after the other, and the backend gives both the id 1.\<close>

definition reused_id_events :: "event list" where
  "reused_id_events =
     [TypeNewTitle ''Buy milk'', Add (Inr milk),
      TypeNewTitle ''Buy more milk'',
      Add (Inr \<lparr>todo_id = 1, title = ''Buy more milk'', completed = False\<rparr>)]"

text \<open>
  A todo that another client created: the list does not hold it, the backend does. A
  toggle of its id succeeds.
\<close>

definition elsewhere :: todo where
  "elsewhere = \<lparr>todo_id = 7, title = ''Elsewhere'', completed = True\<rparr>"

definition absent_toggle_events :: "event list" where
  "absent_toggle_events = [Toggle 7 (Inr elsewhere)]"

text \<open>
  A load of two todos, a create, a toggle of the created todo, a change of title of the
  second and a delete of the first, all confirmed.
\<close>

definition confirmed_events :: "event list" where
  "confirmed_events =
     [Refresh (Inr (ObjectData \<lparr>items = Some [milk, bread], list_total = 2\<rparr>)),
      TypeNewTitle '' Feed cat '',
      Add (Inr \<lparr>todo_id = 3, title = ''Feed cat'', completed = False\<rparr>),
      Toggle 3 (Inr \<lparr>todo_id = 3, title = ''Feed cat'', completed = True\<rparr>),
      UpdateTitle 2 ''Bake rye bread''
        (Inr \<lparr>todo_id = 2, title = ''Bake rye bread'', completed = True\<rparr>),
      Delete 1 (Inr ())]"

text \<open>The response to a request that the backend answers with status 204 and no body.\<close>

definition no_content :: response where
  "no_content =
     \<lparr>status = 204, statusText = ''No Content'',
      body_json = Inl (JsError ''Unexpected end of JSON input'')\<rparr>"

text \<open>
  A validation error as the backend's framework sends it: status 422, and a
  \<^verbatim>\<open>detail\<close> field that is a list of objects, not a string.
\<close>

definition validation_body :: json where
  "validation_body = JObj [(''detail'', JArr [JObj [(''msg'', JStr ''field required'')]])]"

definition validation_error :: response where
  "validation_error =
     \<lparr>status = 422, statusText = ''Unprocessable Entity'', body_json = Inr validation_body\<rparr>"

text \<open>
  A 404 with the error body convention, a 502 whose body is not JSON, and a 500 whose
  body is a JSON string.
\<close>

definition not_found :: response where
  "not_found =
     \<lparr>status = 404, statusText = ''Not Found'',
      body_json = Inr (JObj [(''detail'', JStr ''Todo not found'')])\<rparr>"

definition bad_gateway :: response where
  "bad_gateway =
     \<lparr>status = 502, statusText = '''',
      body_json = Inl (JsError ''Unexpected token < in JSON at position 0'')\<rparr>"

definition database_down :: response where
  "database_down =
     \<lparr>status = 500, statusText = ''Internal Server Error'',
      body_json = Inr (JStr ''Database is down'')\<rparr>"

section \<open>Facts about the list operations of the handlers\<close>

lemma map_id_absent:
  "i \<notin> todo_id ` set xs \<Longrightarrow> map (\<lambda>t. if todo_id t = i then f t else t) xs = xs"
  by (induction xs) auto

lemma filter_id_absent: "i \<notin> todo_id ` set xs \<Longrightarrow> filter (\<lambda>t. todo_id t \<noteq> i) xs = xs"
  by (induction xs) auto

lemma find_id_None: "find (\<lambda>t. todo_id t = i) xs = None \<longleftrightarrow> i \<notin> todo_id ` set xs"
  by (induction xs) auto

lemma find_id_Some:
  "find (\<lambda>t. todo_id t = i) xs = Some ex \<Longrightarrow> ex \<in> set xs \<and> todo_id ex = i"
  by (induction xs) (auto split: if_splits)

lemma map_replace_after_retitle:
  "map (\<lambda>t. if todo_id t = i then u else t)
     (map (\<lambda>t. if todo_id t = i then t\<lparr>title := ttl\<rparr> else t) xs)
   = map (\<lambda>t. if todo_id t = i then u else t) xs"
  by (induction xs) auto

lemma map_replace_after_flip:
  "map (\<lambda>t. if todo_id t = i then u else t)
     (map (\<lambda>t. if todo_id t = i then t\<lparr>completed := \<not> completed t\<rparr> else t) xs)
   = map (\<lambda>t. if todo_id t = i then u else t) xs"
  by (induction xs) auto

section \<open>What each handler does to the list\<close>

lemma todos_handleToggle_Inr:
  "todos (handleToggle s i (Inr u)) = map (\<lambda>t. if todo_id t = i then u else t) (todos s)"
  by (simp add: handleToggle_def handleToggle_begin_def handleToggle_settle_def Let_def
      map_replace_after_flip)

lemma todos_handleToggle_Inl: "todos (handleToggle s i (Inl e)) = todos s"
  by (simp add: handleToggle_def handleToggle_begin_def handleToggle_settle_def Let_def)

lemma todos_handleDelete_Inr:
  "todos (handleDelete s i (Inr u)) = filter (\<lambda>t. todo_id t \<noteq> i) (todos s)"
  by (simp add: handleDelete_def handleDelete_begin_def handleDelete_settle_def Let_def)

lemma todos_handleDelete_Inl: "todos (handleDelete s i (Inl e)) = todos s"
  by (simp add: handleDelete_def handleDelete_begin_def handleDelete_settle_def Let_def)

lemma handleUpdateTitle_absent:
  "find (\<lambda>t. todo_id t = i) (todos s) = None \<Longrightarrow>
     handleUpdateTitle_begin s i ttl = (s\<lparr>error := ''''\<rparr>, None)
     \<and> handleUpdateTitle s i ttl r = (s\<lparr>error := ''''\<rparr>, Inr ())"
  by (simp add: handleUpdateTitle_def handleUpdateTitle_begin_def Let_def)

lemma handleUpdateTitle_begin_present:
  "find (\<lambda>t. todo_id t = i) (todos s) = Some ex \<Longrightarrow>
     handleUpdateTitle_begin s i ttl =
       (s\<lparr>error := '''',
          todos := map (\<lambda>t. if todo_id t = i then t\<lparr>title := ttl\<rparr> else t) (todos s),
          mutating := True\<rparr>,
        Some \<lparr>call = UpdateTodo i ttl (completed ex), snapshot = todos s\<rparr>)"
  by (simp add: handleUpdateTitle_begin_def Let_def)

lemma handleUpdateTitle_present_Inr:
  "find (\<lambda>t. todo_id t = i) (todos s) = Some ex \<Longrightarrow>
     handleUpdateTitle s i ttl (Inr u) =
       (s\<lparr>error := '''',
          todos := map (\<lambda>t. if todo_id t = i then u else t) (todos s),
          mutating := False\<rparr>,
        Inr ())"
  by (simp add: handleUpdateTitle_def handleUpdateTitle_begin_present
      handleUpdateTitle_settle_def map_replace_after_retitle)

lemma handleUpdateTitle_present_Inl:
  "find (\<lambda>t. todo_id t = i) (todos s) = Some ex \<Longrightarrow>
     handleUpdateTitle s i ttl (Inl e) =
       (s\<lparr>error := err_message e ''Failed to update todo'', mutating := False\<rparr>, Inl e)"
  by (simp add: handleUpdateTitle_def handleUpdateTitle_begin_present
      handleUpdateTitle_settle_def)

lemma todos_handleUpdateTitle_Inl: "todos (fst (handleUpdateTitle s i ttl (Inl e))) = todos s"
  by (cases "find (\<lambda>t. todo_id t = i) (todos s)")
     (simp_all add: handleUpdateTitle_absent handleUpdateTitle_present_Inl)

lemma snapshot_handleUpdateTitle_begin:
  "map_option snapshot (snd (handleUpdateTitle_begin s i ttl)) =
     (if i \<in> todo_id ` set (todos s) then Some (todos s) else None)"
proof (cases "find (\<lambda>t. todo_id t = i) (todos s)")
  case None
  then show ?thesis
    using find_id_None [of i "todos s"] by (simp add: handleUpdateTitle_absent)
next
  case (Some ex)
  then show ?thesis
    using find_id_Some [OF Some] by (auto simp: handleUpdateTitle_begin_present)
qed

lemma error_handleUpdateTitle_Inl:
  "i \<in> todo_id ` set (todos s) \<Longrightarrow>
     error (fst (handleUpdateTitle s i ttl (Inl e))) = err_message e ''Failed to update todo''"
  using find_id_None [of i "todos s"]
  by (cases "find (\<lambda>t. todo_id t = i) (todos s)") (auto simp: handleUpdateTitle_present_Inl)

lemma trim_milk: "trim '' Buy milk '' = ''Buy milk''"
  by (simp add: trim_def is_ws_def)

lemma trim_blank:
  assumes "\<forall>c\<in>set d. is_ws c"
  shows "trim d = ''''"
proof -
  have "dropWhile is_ws xs = []" if "\<forall>c\<in>set xs. is_ws c" for xs
    using that by (induction xs) auto
  from this [OF assms] show ?thesis
    by (simp only: trim_def rev.simps dropWhile.simps)
qed

section \<open>The requests of the update and toggle calls\<close>

lemma updateTodo_request:
  "updateTodo fetch i ttl c =
     (case fetch
        \<lparr>req_url = ''http://localhost:3001/todos/'' @ show_int i,
         req_method = Some ''PUT'',
         req_headers = [''Accept'' \<mapsto> ''application/json'',
                        ''Content-Type'' \<mapsto> ''application/json''],
         req_body = Some (JSON_stringify (JObj [(''title'', JStr ttl), (''completed'', JBool c)]))\<rparr>
      of Inl e \<Rightarrow> Inl e | Inr res \<Rightarrow> request_settle res)"
  by (simp add: updateTodo_def request_def request_init_def API_BASE_URL_def Let_def)

lemma toggleTodo_request:
  "toggleTodo fetch i =
     (case fetch
        \<lparr>req_url = ''http://localhost:3001/todos/'' @ show_int i @ ''/toggle'',
         req_method = Some ''PATCH'',
         req_headers = [''Accept'' \<mapsto> ''application/json''],
         req_body = None\<rparr>
      of Inl e \<Rightarrow> Inl e | Inr res \<Rightarrow> request_settle res)"
  by (simp add: toggleTodo_def request_def request_init_def API_BASE_URL_def Let_def)

section \<open>One action keeps the list in step with the server\<close>

lemmas handler_defs =
  refresh_def refresh_begin_def refresh_settle_def
  handleAdd_def handleAdd_begin_def handleAdd_settle_def
  handleToggle_def handleToggle_begin_def handleToggle_settle_def
  handleDelete_def handleDelete_begin_def handleDelete_settle_def
  handleUpdateTitle_def handleUpdateTitle_begin_def handleUpdateTitle_settle_def
  setNewTitle_def setFilter_def

lemma trim_more_milk: "trim ''Buy more milk'' = ''Buy more milk''"
  by (simp add: trim_def is_ws_def)

lemma trim_buy_milk: "trim ''Buy milk'' = ''Buy milk''"
  by (simp add: trim_def is_ws_def)

lemma trim_cat: "trim '' Feed cat '' = ''Feed cat''"
  by (simp add: trim_def is_ws_def)

lemma find_map_of:
  "map_of (map (\<lambda>t. (todo_id t, t)) xs) i = find (\<lambda>t. todo_id t = i) xs"
  by (induction xs) auto

lemma map_todo_id_replace:
  "todo_id u = i \<Longrightarrow> map todo_id (map (\<lambda>t. if todo_id t = i then u else t) xs) = map todo_id xs"
  by (induction xs) auto

lemma find_replace:
  "todo_id u = i \<Longrightarrow>
     find (\<lambda>t. todo_id t = j) (map (\<lambda>t. if todo_id t = i then u else t) xs) =
       (if j = i then (if i \<in> todo_id ` set xs then Some u else None)
        else find (\<lambda>t. todo_id t = j) xs)"
  by (induction xs) auto

lemma find_filter:
  "find (\<lambda>t. todo_id t = j) (filter (\<lambda>t. todo_id t \<noteq> i) xs) =
     (if j = i then None else find (\<lambda>t. todo_id t = j) xs)"
  by (induction xs) auto

lemma todos_refresh_Object:
  "todos (refresh s (Inr (ObjectData d))) = (case items d of Some xs \<Rightarrow> xs | None \<Rightarrow> [])"
  by (simp add: refresh_def refresh_begin_def refresh_settle_def refresh_try_def Let_def
      split: option.splits)

lemma todos_refresh_Null: "todos (refresh s (Inr NullData)) = todos s"
  by (simp add: refresh_def refresh_begin_def refresh_settle_def refresh_try_def Let_def)

lemma todos_handleAdd_Inr:
  "todos (handleAdd s (Inr c)) = (if trim (newTitle s) = '''' then todos s else c # todos s)"
  by (simp add: handleAdd_def handleAdd_begin_def handleAdd_settle_def Let_def)

lemma issued_Add: "snd (handleAdd_begin s) = None \<longleftrightarrow> trim (newTitle s) = ''''"
  by (simp add: handleAdd_begin_def Let_def)

lemma todos_handleUpdateTitle_Inr:
  "todos (fst (handleUpdateTitle s i ttl (Inr u))) = map (\<lambda>t. if todo_id t = i then u else t) (todos s)"
proof (cases "find (\<lambda>t. todo_id t = i) (todos s)")
  case None
  then have "i \<notin> todo_id ` set (todos s)"
    by (simp add: find_id_None)
  then show ?thesis
    using None by (simp add: handleUpdateTitle_absent map_id_absent)
next
  case (Some ex)
  then show ?thesis
    by (simp add: handleUpdateTitle_present_Inr)
qed

lemma issued_UpdateTitle:
  "map_option call (snd (handleUpdateTitle_begin s i ttl)) = None
     \<longleftrightarrow> i \<notin> todo_id ` set (todos s)"
proof (cases "find (\<lambda>t. todo_id t = i) (todos s)")
  case None
  then show ?thesis
    using find_id_None [of i "todos s"] by (simp add: handleUpdateTitle_absent)
next
  case (Some ex)
  then show ?thesis
    using find_id_Some [OF Some] by (auto simp: handleUpdateTitle_begin_present)
qed

text \<open>
  The list mirrors the confirmed records when its ids are pairwise different and, for
  every id, the todo it holds for the id is the confirmed record, none when none is
  confirmed. One well-behaved action keeps that.
\<close>

lemma step_keeps_mirror:
  assumes d: "distinct (map todo_id (todos s))"
    and m: "\<forall>i. find (\<lambda>t. todo_id t = i) (todos s) = m i"
    and ok: "succeeds e" and c: "respects_contract s e" and h: "acts_on_held s e"
  shows "distinct (map todo_id (todos (step s e)))
    \<and> (\<forall>i. find (\<lambda>t. todo_id t = i) (todos (step s e)) = confirm s m e i)"
proof (cases e)
  case (Refresh r)
  with ok obtain data where r: "r = Inr data"
    by (cases r) auto
  show ?thesis
  proof (cases data)
    case NullData
    from d m show ?thesis
      unfolding Refresh r NullData by (simp add: todos_refresh_Null)
  next
    case (ObjectData dd)
    from c show ?thesis
      unfolding Refresh r ObjectData by (simp add: todos_refresh_Object find_map_of)
  qed
next
  case (Add r)
  with ok obtain cr where r: "r = Inr cr"
    by (cases r) auto
  show ?thesis
  proof (cases "trim (newTitle s) = ''''")
    case True
    then show ?thesis
      unfolding Add r using d m by (simp add: todos_handleAdd_Inr issued_Add)
  next
    case False
    from c have fresh: "todo_id cr \<notin> todo_id ` set (todos s)"
      unfolding Add r by simp
    with False show ?thesis
      unfolding Add r using d m by (simp add: todos_handleAdd_Inr issued_Add)
  qed
next
  case (Toggle i r)
  with ok obtain u where r: "r = Inr u"
    by (cases r) auto
  from c have u: "todo_id u = i"
    unfolding Toggle r by simp
  from h have held: "i \<in> todo_id ` set (todos s)"
    unfolding Toggle by simp
  have upd: "todos (step s e) = map (\<lambda>t. if todo_id t = i then u else t) (todos s)"
    unfolding Toggle r by (simp only: step.simps todos_handleToggle_Inr)
  have "distinct (map todo_id (todos (step s e)))"
    using d by (simp only: upd map_todo_id_replace [OF u])
  moreover have "find (\<lambda>t. todo_id t = j) (todos (step s e)) = confirm s m e j" for j
    unfolding upd find_replace [OF u] using m held u by (simp add: Toggle r)
  ultimately show ?thesis
    by simp
next
  case (Delete i r)
  with ok obtain x where r: "r = Inr x"
    by (cases r) auto
  show ?thesis
    unfolding Delete r using d m
    by (simp add: todos_handleDelete_Inr distinct_map_filter find_filter)
next
  case (UpdateTitle i ttl r)
  with ok obtain u where r: "r = Inr u"
    by (cases r) auto
  from c have u: "todo_id u = i"
    unfolding UpdateTitle r by simp
  have upd: "todos (step s e) = map (\<lambda>t. if todo_id t = i then u else t) (todos s)"
    unfolding UpdateTitle r by (simp only: step.simps todos_handleUpdateTitle_Inr)
  have conf: "confirm s m e = (if i \<in> todo_id ` set (todos s) then m(i \<mapsto> u) else m)"
    unfolding UpdateTitle r using u
    by (simp only: confirm.simps issued_call.simps issued_UpdateTitle) simp
  have "distinct (map todo_id (todos (step s e)))"
    using d by (simp only: upd map_todo_id_replace [OF u])
  moreover have "find (\<lambda>t. todo_id t = j) (todos (step s e)) = confirm s m e j" for j
  proof (cases "i \<in> todo_id ` set (todos s)")
    case True
    then show ?thesis
      unfolding upd find_replace [OF u] conf using m by simp
  next
    case False
    then have "find (\<lambda>t. todo_id t = i) (todos s) = None"
      by (simp add: find_id_None)
    with False show ?thesis
      unfolding upd find_replace [OF u] conf using m by simp
  qed
  ultimately show ?thesis
    by simp
next
  case (TypeNewTitle v)
  then show ?thesis
    using d m by (simp add: setNewTitle_def)
next
  case (SelectFilter f)
  then show ?thesis
    using d m by (simp add: setFilter_def)
qed

lemma run_keeps_mirror:
  "distinct (map todo_id (todos s)) \<Longrightarrow> \<forall>i. find (\<lambda>t. todo_id t = i) (todos s) = m i \<Longrightarrow>
     well_behaved s es \<Longrightarrow>
     distinct (map todo_id (todos (run s es)))
     \<and> (\<forall>i. find (\<lambda>t. todo_id t = i) (todos (run s es)) = confirmed_after s m es i)"
proof (induction es arbitrary: s m)
  case Nil
  then show ?case
    by simp
next
  case (Cons e es)
  from Cons.prems(3) have e: "succeeds e" "respects_contract s e" "acts_on_held s e"
    and rest: "well_behaved (step s e) es"
    by simp_all
  from step_keeps_mirror [OF Cons.prems(1,2) e]
  have "distinct (map todo_id (todos (step s e)))"
    and "\<forall>i. find (\<lambda>t. todo_id t = i) (todos (step s e)) = confirm s m e i"
    by simp_all
  from Cons.IH [OF this rest] show ?case
    by simp
qed

section \<open>Derived views: filtering and counting\<close>

lemma length_filter_not_completed:
  "length (filter (\<lambda>t. \<not> completed t) xs) = length xs - length (filter (\<lambda>t. completed t) xs)"
  by (induction xs) (auto simp: Suc_diff_le)

text \<open>
  C9. Selecting a filter leaves \<open>todos\<close> as it is. The filtered list is all of \<open>todos\<close>
  for the filter \<open>all\<close>, the todos that are not completed for \<open>active\<close>, and the
  completed ones for \<open>completed\<close>. The counts do not depend on the filter: \<open>total\<close> is
  the length of the whole list, \<open>completed\<close> and \<open>active\<close> count its completed and its
  other todos.
\<close>

theorem filter_views_over_full_list:
  "todos (setFilter s f) = todos s
   \<and> filteredTodos (setFilter s ''all'') = todos s
   \<and> filteredTodos (setFilter s ''active'') = filter (\<lambda>t. \<not> completed t) (todos s)
   \<and> filteredTodos (setFilter s ''completed'') = filter (\<lambda>t. completed t) (todos s)
   \<and> counts (setFilter s f) = counts s
   \<and> total (counts s) = length (todos s)
   \<and> active (counts s) = length (filter (\<lambda>t. \<not> completed t) (todos s))
   \<and> completed_cnt (counts s) = length (filter (\<lambda>t. completed t) (todos s))"
proof -
  have "active (counts s) = length (filter (\<lambda>t. \<not> completed t) (todos s))"
    by (simp add: counts_def Let_def length_filter_not_completed)
  then show ?thesis
    by (simp add: setFilter_def filteredTodos_def counts_def Let_def)
qed

section \<open>Rollback\<close>

text \<open>
  C1. When the call of a toggle, a delete or an update of a title fails, the list is
  again the one the handler read when it began, and the error shown is the message of
  the failure. The handler captured that list as its snapshot, and the code after the
  failed call writes the snapshot back whatever the list was at that moment. (An update
  for an id that is not in the list issues no call; it leaves the list as it is.)
\<close>

theorem rollback_on_failure:
  "snapshot (snd (handleToggle_begin s i)) = todos s
   \<and> todos (handleToggle_settle i prev s' (Inl e)) = prev
   \<and> error (handleToggle_settle i prev s' (Inl (JsError m))) = m
   \<and> todos (handleToggle s i (Inl e)) = todos s
   \<and> error (handleToggle s i (Inl (JsError m))) = m
   \<and> snapshot (snd (handleDelete_begin s i)) = todos s
   \<and> todos (handleDelete_settle prev s' (Inl e)) = prev
   \<and> error (handleDelete_settle prev s' (Inl (JsError m))) = m
   \<and> todos (handleDelete s i (Inl e)) = todos s
   \<and> error (handleDelete s i (Inl (JsError m))) = m
   \<and> map_option snapshot (snd (handleUpdateTitle_begin s i ttl)) =
       (if i \<in> todo_id ` set (todos s) then Some (todos s) else None)
   \<and> todos (fst (handleUpdateTitle_settle i prev s' (Inl e))) = prev
   \<and> error (fst (handleUpdateTitle_settle i prev s' (Inl (JsError m)))) = m
   \<and> todos (fst (handleUpdateTitle s i ttl (Inl e))) = todos s
   \<and> (i \<in> todo_id ` set (todos s) \<longrightarrow>
        error (fst (handleUpdateTitle s i ttl (Inl (JsError m)))) = m)"
proof -
  have toggle: "snapshot (snd (handleToggle_begin s i)) = todos s
      \<and> todos (handleToggle_settle i prev s' (Inl e)) = prev
      \<and> error (handleToggle_settle i prev s' (Inl (JsError m))) = m
      \<and> error (handleToggle s i (Inl (JsError m))) = m"
    by (simp add: handleToggle_def handleToggle_begin_def handleToggle_settle_def Let_def)
  have delete: "snapshot (snd (handleDelete_begin s i)) = todos s
      \<and> todos (handleDelete_settle prev s' (Inl e)) = prev
      \<and> error (handleDelete_settle prev s' (Inl (JsError m))) = m
      \<and> error (handleDelete s i (Inl (JsError m))) = m"
    by (simp add: handleDelete_def handleDelete_begin_def handleDelete_settle_def Let_def)
  have update: "todos (fst (handleUpdateTitle_settle i prev s' (Inl e))) = prev
      \<and> error (fst (handleUpdateTitle_settle i prev s' (Inl (JsError m)))) = m"
    by (simp add: handleUpdateTitle_settle_def)
  show ?thesis
    using toggle delete update
    by (simp add: todos_handleToggle_Inl todos_handleDelete_Inl todos_handleUpdateTitle_Inl
        snapshot_handleUpdateTitle_begin error_handleUpdateTitle_Inl)
qed

theorem rollback_on_failure_witness:
  "todos (handleToggle two_todos 1 (Inl (JsError ''Internal Server Error''))) = [milk, bread]
   \<and> error (handleToggle two_todos 1 (Inl (JsError ''Internal Server Error'')))
       = ''Internal Server Error''
   \<and> todos (handleDelete two_todos 1 (Inl (JsError ''Internal Server Error''))) = [milk, bread]
   \<and> 1 \<in> todo_id ` set (todos two_todos)
   \<and> todos (fst (handleUpdateTitle two_todos 1 ''Buy oat milk''
        (Inl (JsError ''Internal Server Error'')))) = [milk, bread]
   \<and> error (fst (handleUpdateTitle two_todos 1 ''Buy oat milk''
        (Inl (JsError ''Internal Server Error'')))) = ''Internal Server Error''"
  using rollback_on_failure [of two_todos 1 "[]" two_todos "JsError ''Internal Server Error''"
      "''Internal Server Error''" "''Buy oat milk''"]
  by (simp add: two_todos_def milk_def bread_def init_state_def)

section \<open>Sequences of successful actions\<close>

text \<open>
  Success of every call is not enough, for either half of the property. The controller
  puts the created todo in front of the list without looking at its id, so two creates
  that the backend answers with the same id leave two todos with that id. And a toggle
  of an id that the list does not hold, answered by a backend that holds it, confirms a
  record for that id while the list still has none.
\<close>

theorem success_alone_is_not_enough:
  "list_all succeeds reused_id_events
   \<and> todos (run init_state reused_id_events)
       = [\<lparr>todo_id = 1, title = ''Buy more milk'', completed = False\<rparr>, milk]
   \<and> \<not> distinct (map todo_id (todos (run init_state reused_id_events)))
   \<and> list_all succeeds absent_toggle_events
   \<and> respects_contract init_state (Toggle 7 (Inr elsewhere))
   \<and> find (\<lambda>t. todo_id t = 7) (todos (run init_state absent_toggle_events)) = None
   \<and> confirmed_after init_state Map.empty absent_toggle_events 7 = Some elsewhere"
proof -
  have reused: "todos (run init_state reused_id_events)
      = [\<lparr>todo_id = 1, title = ''Buy more milk'', completed = False\<rparr>, milk]"
    by (simp add: reused_id_events_def init_state_def milk_def handler_defs Let_def
        trim_more_milk trim_buy_milk)
  have absent: "todos (run init_state absent_toggle_events) = []"
    by (simp add: absent_toggle_events_def init_state_def todos_handleToggle_Inr)
  have confirmed: "confirmed_after init_state Map.empty absent_toggle_events 7 = Some elsewhere"
    by (simp add: absent_toggle_events_def elsewhere_def)
  show ?thesis
    unfolding reused absent confirmed
    by (simp add: reused_id_events_def absent_toggle_events_def elsewhere_def milk_def)
qed

text \<open>
  C2 (amended). Start from the initial state and take any sequence of actions (refresh,
  add, toggle, delete, update of a title, typing a new title, selecting a filter) such
  that every call succeeds, every answer respects the backend's contract (the items of a
  list have pairwise different ids, a created todo has an id the list does not hold, a
  toggle or an update returns a record with the id asked for), and every toggle is for
  an id the list holds. Then no two todos of the resulting list have the same id, and
  for every id the todo the list holds for it is the record the server confirmed last
  for that id: the list holds none exactly when the server confirmed none, or confirmed
  last that the id is gone.
\<close>

theorem successful_sequences_mirror_server:
  assumes "well_behaved init_state es"
  shows "distinct (map todo_id (todos (run init_state es)))
    \<and> (\<forall>i. find (\<lambda>t. todo_id t = i) (todos (run init_state es))
            = confirmed_after init_state Map.empty es i)"
  using assms by (intro run_keeps_mirror) (simp_all add: init_state_def)

theorem successful_sequences_mirror_server_witness:
  "well_behaved init_state confirmed_events
   \<and> todos (run init_state confirmed_events)
       = [\<lparr>todo_id = 3, title = ''Feed cat'', completed = True\<rparr>,
          \<lparr>todo_id = 2, title = ''Bake rye bread'', completed = True\<rparr>]
   \<and> distinct (map todo_id (todos (run init_state confirmed_events)))
   \<and> confirmed_after init_state Map.empty confirmed_events 1 = None
   \<and> confirmed_after init_state Map.empty confirmed_events 2
       = Some \<lparr>todo_id = 2, title = ''Bake rye bread'', completed = True\<rparr>
   \<and> confirmed_after init_state Map.empty confirmed_events 3
       = Some \<lparr>todo_id = 3, title = ''Feed cat'', completed = True\<rparr>"
proof -
  have wb: "well_behaved init_state confirmed_events"
    by (simp add: confirmed_events_def init_state_def milk_def bread_def handler_defs
        refresh_try_def Let_def trim_cat)
  have final: "todos (run init_state confirmed_events)
      = [\<lparr>todo_id = 3, title = ''Feed cat'', completed = True\<rparr>,
         \<lparr>todo_id = 2, title = ''Bake rye bread'', completed = True\<rparr>]"
    by (simp add: confirmed_events_def init_state_def milk_def bread_def handler_defs
        refresh_try_def Let_def trim_cat)
  from successful_sequences_mirror_server [OF wb]
  have mirror: "confirmed_after init_state Map.empty confirmed_events i
      = find (\<lambda>t. todo_id t = i) (todos (run init_state confirmed_events))" for i
    by simp
  show ?thesis
    unfolding mirror using wb by (simp add: final)
qed

section \<open>Update of a title\<close>

text \<open>
  An update for an id that is not in the list is not without effect on the state: the
  handler empties the error message before it looks for the id, so a state that shows
  the message of an earlier failure is changed.
\<close>

theorem update_title_absent_clears_error:
  "9 \<notin> todo_id ` set (todos after_failure)
   \<and> error after_failure = ''Not Found''
   \<and> error (fst (handleUpdateTitle after_failure 9 ''Buy oat milk'' (Inr milk))) = ''''
   \<and> fst (handleUpdateTitle after_failure 9 ''Buy oat milk'' (Inr milk)) \<noteq> after_failure"
proof -
  have absent: "find (\<lambda>t. todo_id t = 9) (todos after_failure) = None"
    by (simp add: after_failure_def two_todos_def milk_def bread_def init_state_def)
  have err: "error after_failure = ''Not Found''"
    by (simp add: after_failure_def)
  have cleared: "error (fst (handleUpdateTitle after_failure 9 ''Buy oat milk'' (Inr milk))) = ''''"
    by (simp add: handleUpdateTitle_absent [OF absent])
  from err cleared have "fst (handleUpdateTitle after_failure 9 ''Buy oat milk'' (Inr milk)) \<noteq> after_failure"
    by auto
  with absent err cleared show ?thesis
    by (simp add: find_id_None)
qed

text \<open>
  C3 (amended). Update of a title with an id that is not in the list issues no call,
  resolves, and changes nothing but the error message, which it empties. With an id
  that is in the list it rewrites the title of the todos with that id and leaves the
  \<open>completed\<close> flags and the other todos as they are; it issues the update call with
  the new title and the \<open>completed\<close> value of the todo it found, which the client
  sends as a PUT whose body holds both. On success the todos with that id are replaced
  by the record the server returned. On failure the list is the one from before, the
  error is the message of the failure, and the promise of the handler rejects with what
  was thrown.
\<close>

theorem update_title_contract:
  "(i \<notin> todo_id ` set (todos s) \<longrightarrow>
      handleUpdateTitle_begin s i ttl = (s\<lparr>error := ''''\<rparr>, None)
      \<and> handleUpdateTitle s i ttl r = (s\<lparr>error := ''''\<rparr>, Inr ()))
   \<and> (find (\<lambda>t. todo_id t = i) (todos s) = Some ex \<longrightarrow>
        snd (handleUpdateTitle_begin s i ttl) =
          Some \<lparr>call = UpdateTodo i ttl (completed ex), snapshot = todos s\<rparr>
        \<and> todos (fst (handleUpdateTitle_begin s i ttl)) =
            map (\<lambda>t. if todo_id t = i then t\<lparr>title := ttl\<rparr> else t) (todos s)
        \<and> map completed (todos (fst (handleUpdateTitle_begin s i ttl))) = map completed (todos s)
        \<and> map todo_id (todos (fst (handleUpdateTitle_begin s i ttl))) = map todo_id (todos s)
        \<and> handleUpdateTitle s i ttl (Inr u) =
            (s\<lparr>error := '''',
               todos := map (\<lambda>t. if todo_id t = i then u else t) (todos s),
               mutating := False\<rparr>,
             Inr ())
        \<and> handleUpdateTitle s i ttl (Inl e) =
            (s\<lparr>error := err_message e ''Failed to update todo'', mutating := False\<rparr>, Inl e))
   \<and> perform fetch (UpdateTodo i ttl c) =
       (case fetch
          \<lparr>req_url = ''http://localhost:3001/todos/'' @ show_int i,
           req_method = Some ''PUT'',
           req_headers = [''Accept'' \<mapsto> ''application/json'',
                          ''Content-Type'' \<mapsto> ''application/json''],
           req_body =
             Some (JSON_stringify (JObj [(''title'', JStr ttl), (''completed'', JBool c)]))\<rparr>
        of Inl e \<Rightarrow> Inl e | Inr res \<Rightarrow> request_settle res)"
proof -
  have absent: "handleUpdateTitle_begin s i ttl = (s\<lparr>error := ''''\<rparr>, None)
      \<and> handleUpdateTitle s i ttl r = (s\<lparr>error := ''''\<rparr>, Inr ())"
    if "i \<notin> todo_id ` set (todos s)"
    using that by (intro handleUpdateTitle_absent) (simp add: find_id_None)
  have keeps: "map completed (map (\<lambda>t. if todo_id t = i then t\<lparr>title := ttl\<rparr> else t) xs)
        = map completed xs
      \<and> map todo_id (map (\<lambda>t. if todo_id t = i then t\<lparr>title := ttl\<rparr> else t) xs)
        = map todo_id xs" for xs :: "todo list"
    by (induction xs) auto
  have present: "snd (handleUpdateTitle_begin s i ttl) =
          Some \<lparr>call = UpdateTodo i ttl (completed ex), snapshot = todos s\<rparr>
        \<and> todos (fst (handleUpdateTitle_begin s i ttl)) =
            map (\<lambda>t. if todo_id t = i then t\<lparr>title := ttl\<rparr> else t) (todos s)
        \<and> map completed (todos (fst (handleUpdateTitle_begin s i ttl))) = map completed (todos s)
        \<and> map todo_id (todos (fst (handleUpdateTitle_begin s i ttl))) = map todo_id (todos s)"
    if "find (\<lambda>t. todo_id t = i) (todos s) = Some ex"
    using keeps [of "todos s"] by (simp add: handleUpdateTitle_begin_present [OF that])
  show ?thesis
    using absent present handleUpdateTitle_present_Inr [of i s ex ttl u]
      handleUpdateTitle_present_Inl [of i s ex ttl e] updateTodo_request [of fetch i ttl c]
    by simp
qed

theorem update_title_contract_witness:
  "9 \<notin> todo_id ` set (todos after_failure)
   \<and> handleUpdateTitle after_failure 9 ''Buy oat milk'' (Inr milk) = (two_todos, Inr ())
   \<and> find (\<lambda>t. todo_id t = 2) (todos two_todos) = Some bread
   \<and> snd (handleUpdateTitle_begin two_todos 2 ''Bake rye bread'') =
       Some \<lparr>call = UpdateTodo 2 ''Bake rye bread'' True, snapshot = [milk, bread]\<rparr>
   \<and> todos (fst (handleUpdateTitle_begin two_todos 2 ''Bake rye bread'')) =
       [milk, \<lparr>todo_id = 2, title = ''Bake rye bread'', completed = True\<rparr>]
   \<and> handleUpdateTitle two_todos 2 ''Bake rye bread''
        (Inr \<lparr>todo_id = 2, title = ''Bake rye bread!'', completed = True\<rparr>) =
       (two_todos\<lparr>todos := [milk, \<lparr>todo_id = 2, title = ''Bake rye bread!'', completed = True\<rparr>]\<rparr>,
        Inr ())
   \<and> handleUpdateTitle two_todos 2 ''Bake rye bread'' (Inl (JsError ''Bad Gateway'')) =
       (two_todos\<lparr>error := ''Bad Gateway''\<rparr>, Inl (JsError ''Bad Gateway''))"
  using update_title_contract [where i = 9 and s = after_failure and ttl = "''Buy oat milk''"
      and r = "Inr milk"]
    update_title_contract [where i = 2 and s = two_todos and ex = bread
      and ttl = "''Bake rye bread''"
      and u = "\<lparr>todo_id = 2, title = ''Bake rye bread!'', completed = True\<rparr>"
      and e = "JsError ''Bad Gateway''"]
  by (simp add: after_failure_def two_todos_def milk_def bread_def init_state_def)

section \<open>Add\<close>

text \<open>
  C4. Add with a title that is not blank issues the create call with the trimmed title
  and inserts nothing before the call is settled. When the call succeeds, the todo
  the server returned is put in front of the list, the rest of the list keeps its
  order, and the draft title is emptied. When it fails, the list is the one from before
  the action and the error is the message of the failure.
\<close>

theorem add_not_optimistic:
  assumes "trim (newTitle s) \<noteq> ''''"
  shows "snd (handleAdd_begin s) = Some (CreateTodo (trim (newTitle s)))
    \<and> todos (fst (handleAdd_begin s)) = todos s
    \<and> todos (handleAdd_settle s' (Inr created)) = created # todos s'
    \<and> todos (handleAdd s (Inr created)) = created # todos s
    \<and> newTitle (handleAdd s (Inr created)) = ''''
    \<and> todos (handleAdd_settle s' (Inl e)) = todos s'
    \<and> todos (handleAdd s (Inl e)) = todos s
    \<and> error (handleAdd s (Inl (JsError m))) = m"
  using assms
  by (simp add: handleAdd_def handleAdd_begin_def handleAdd_settle_def Let_def)

theorem add_not_optimistic_witness:
  "trim (newTitle (setNewTitle two_todos '' Buy milk '')) \<noteq> ''''
   \<and> snd (handleAdd_begin (setNewTitle two_todos '' Buy milk '')) = Some (CreateTodo ''Buy milk'')
   \<and> todos (handleAdd (setNewTitle two_todos '' Buy milk '')
        (Inr \<lparr>todo_id = 3, title = ''Buy milk'', completed = False\<rparr>))
       = [\<lparr>todo_id = 3, title = ''Buy milk'', completed = False\<rparr>, milk, bread]
   \<and> todos (handleAdd (setNewTitle two_todos '' Buy milk '') (Inl (JsError ''Bad Gateway'')))
       = [milk, bread]
   \<and> error (handleAdd (setNewTitle two_todos '' Buy milk '') (Inl (JsError ''Bad Gateway'')))
       = ''Bad Gateway''"
  using add_not_optimistic [of "setNewTitle two_todos '' Buy milk ''" two_todos
      "\<lparr>todo_id = 3, title = ''Buy milk'', completed = False\<rparr>" "JsError ''Bad Gateway''"
      "''Bad Gateway''"]
  by (simp add: setNewTitle_def trim_milk two_todos_def init_state_def)

section \<open>Toggling twice\<close>

text \<open>
  C5. Take a todo of the list and toggle its id twice. Both calls succeed, the first
  returns a record with that id whose \<open>completed\<close> is the inverse of the todo's, the
  second a record with that id whose \<open>completed\<close> is the inverse of the first answer's
  (the backend's contract; the call is a PATCH with no body). Then the ids of the list
  are the same as before, in the same order, after the first toggle every todo with that
  id has the inverted value, and after the second every todo with that id has the
  todo's original \<open>completed\<close> value. When the answers are the todo's own record with
  the flag inverted, the todo itself is in the list again.
\<close>

theorem toggle_twice_restores_completed:
  assumes "t \<in> set (todos s)"
    and "todo_id r1 = todo_id t" and "completed r1 = (\<not> completed t)"
    and "todo_id r2 = todo_id t" and "completed r2 = (\<not> completed r1)"
  shows "call (snd (handleToggle_begin s (todo_id t))) = ToggleTodo (todo_id t)
    \<and> perform fetch (ToggleTodo (todo_id t)) =
        (case fetch
           \<lparr>req_url = ''http://localhost:3001/todos/'' @ show_int (todo_id t) @ ''/toggle'',
            req_method = Some ''PATCH'',
            req_headers = [''Accept'' \<mapsto> ''application/json''],
            req_body = None\<rparr>
         of Inl e \<Rightarrow> Inl e | Inr res \<Rightarrow> request_settle res)
    \<and> map todo_id (todos (handleToggle s (todo_id t) (Inr r1))) = map todo_id (todos s)
    \<and> (\<forall>u\<in>set (todos (handleToggle s (todo_id t) (Inr r1))).
          todo_id u = todo_id t \<longrightarrow> completed u = (\<not> completed t))
    \<and> map todo_id (todos (handleToggle (handleToggle s (todo_id t) (Inr r1)) (todo_id t) (Inr r2)))
        = map todo_id (todos s)
    \<and> (\<forall>u\<in>set (todos (handleToggle (handleToggle s (todo_id t) (Inr r1)) (todo_id t) (Inr r2))).
          todo_id u = todo_id t \<longrightarrow> completed u = completed t)
    \<and> (r1 = t\<lparr>completed := \<not> completed t\<rparr> \<and> r2 = r1\<lparr>completed := \<not> completed r1\<rparr> \<longrightarrow>
          t \<in> set (todos (handleToggle (handleToggle s (todo_id t) (Inr r1)) (todo_id t) (Inr r2))))"
proof -
  let ?i = "todo_id t"
  have ids: "map todo_id (map (\<lambda>u. if todo_id u = ?i then r else u) xs) = map todo_id xs"
    if "todo_id r = ?i" for r :: todo and xs
    using that by (induction xs) auto
  have vals: "\<forall>u\<in>set (map (\<lambda>u. if todo_id u = ?i then r else u) xs).
      todo_id u = ?i \<longrightarrow> u = r" for r :: todo and xs
    by (induction xs) auto
  have mem: "r \<in> set (map (\<lambda>u. if todo_id u = ?i then r else u) xs)"
    if "x \<in> set xs" and "todo_id x = ?i" for r x :: todo and xs
    using that by (induction xs) auto
  have first: "todos (handleToggle s ?i (Inr r1)) = map (\<lambda>u. if todo_id u = ?i then r1 else u) (todos s)"
    by (rule todos_handleToggle_Inr)
  have second: "todos (handleToggle (handleToggle s ?i (Inr r1)) ?i (Inr r2))
      = map (\<lambda>u. if todo_id u = ?i then r2 else u) (todos (handleToggle s ?i (Inr r1)))"
    by (rule todos_handleToggle_Inr)
  have c0: "call (snd (handleToggle_begin s ?i)) = ToggleTodo ?i"
    by (simp add: handleToggle_begin_def Let_def)
  have c1: "map todo_id (todos (handleToggle s ?i (Inr r1))) = map todo_id (todos s)"
    by (simp only: first ids [OF assms(2)])
  have c2: "\<forall>u\<in>set (todos (handleToggle s ?i (Inr r1))).
      todo_id u = ?i \<longrightarrow> completed u = (\<not> completed t)"
    using vals [of r1 "todos s"] assms(3) by (auto simp: first)
  have c3: "map todo_id (todos (handleToggle (handleToggle s ?i (Inr r1)) ?i (Inr r2)))
      = map todo_id (todos s)"
    by (simp only: second ids [OF assms(4)] c1)
  have c4: "\<forall>u\<in>set (todos (handleToggle (handleToggle s ?i (Inr r1)) ?i (Inr r2))).
      todo_id u = ?i \<longrightarrow> completed u = completed t"
    using vals [of r2 "todos (handleToggle s ?i (Inr r1))"] assms(3,5) by (auto simp: second)
  have c5: "t \<in> set (todos (handleToggle (handleToggle s ?i (Inr r1)) ?i (Inr r2)))"
    if "r1 = t\<lparr>completed := \<not> completed t\<rparr> \<and> r2 = r1\<lparr>completed := \<not> completed r1\<rparr>"
  proof -
    from that have "r2 = t"
      by simp
    have "r1 \<in> set (todos (handleToggle s ?i (Inr r1)))"
      unfolding first using assms(1) by (rule mem) simp
    then have "r2 \<in> set (todos (handleToggle (handleToggle s ?i (Inr r1)) ?i (Inr r2)))"
      unfolding second using assms(2) by (rule mem)
    with \<open>r2 = t\<close> show ?thesis
      by simp
  qed
  have c6: "perform fetch (ToggleTodo ?i) =
        (case fetch
           \<lparr>req_url = ''http://localhost:3001/todos/'' @ show_int ?i @ ''/toggle'',
            req_method = Some ''PATCH'',
            req_headers = [''Accept'' \<mapsto> ''application/json''],
            req_body = None\<rparr>
         of Inl e \<Rightarrow> Inl e | Inr res \<Rightarrow> request_settle res)"
    by (simp add: toggleTodo_request)
  from c0 c1 c2 c3 c4 c5 c6 show ?thesis
    by blast
qed

theorem toggle_twice_restores_completed_witness:
  "milk \<in> set (todos two_todos)
   \<and> todos (handleToggle two_todos 1 (Inr (milk\<lparr>completed := True\<rparr>)))
       = [milk\<lparr>completed := True\<rparr>, bread]
   \<and> todos (handleToggle (handleToggle two_todos 1 (Inr (milk\<lparr>completed := True\<rparr>))) 1
        (Inr milk)) = [milk, bread]
   \<and> map completed (todos (handleToggle
        (handleToggle two_todos 1 (Inr (milk\<lparr>completed := True\<rparr>))) 1 (Inr milk)))
       = map completed (todos two_todos)"
  using toggle_twice_restores_completed [where t = milk and s = two_todos
      and ?r1.0 = "milk\<lparr>completed := True\<rparr>" and ?r2.0 = milk]
  by (simp add: todos_handleToggle_Inr two_todos_def milk_def bread_def init_state_def)

section \<open>The message of a failed request\<close>

lemma parseErrorBody_cases:
  "(body_json res = Inr (JObj ps) \<and> map_of ps ''detail'' = Some (JStr d)
      \<longrightarrow> parseErrorBody res = d)
   \<and> (body_json res = Inr data \<and> is_object data
        \<and> string_value (get_prop data ''detail'') = None
      \<longrightarrow> parseErrorBody res = JSON_stringify data)
   \<and> (body_json res = Inr (JStr str) \<longrightarrow> parseErrorBody res = str)
   \<and> (body_json res = Inr data \<and> (data = JNull \<or> data = JBool b \<or> data = JNum n)
      \<longrightarrow> parseErrorBody res = JSON_stringify data)
   \<and> (body_json res = Inl e \<and> statusText res \<noteq> '''' \<longrightarrow> parseErrorBody res = statusText res)
   \<and> (body_json res = Inl e \<and> statusText res = '''' \<longrightarrow> parseErrorBody res = ''Request failed'')"
  by (auto simp: parseErrorBody_def)

text \<open>
  The priority order of the specification takes the \<open>detail\<close> field whenever the body
  has one. The wrapper takes it only when it is a string: for the validation error
  below, whose \<open>detail\<close> is a list, the message is the serialized body, which is
  neither the \<open>detail\<close> field converted to a string nor the field serialized. And a
  body that is a JSON string is not serialized: the message is the string itself, without
  the quotes of its serialization.
\<close>

theorem detail_not_a_string:
  "\<not> ok validation_error
   \<and> get_prop validation_body ''detail'' = Some (JArr [JObj [(''msg'', JStr ''field required'')]])
   \<and> request_settle validation_error = Inl (JsError (JSON_stringify validation_body))
   \<and> spec_error_message validation_error = ''[object Object]''
   \<and> request_settle validation_error \<noteq> Inl (JsError (spec_error_message validation_error))
   \<and> JSON_stringify validation_body
       \<noteq> JSON_stringify (JArr [JObj [(''msg'', JStr ''field required'')]])
   \<and> \<not> ok database_down
   \<and> request_settle database_down = Inl (JsError ''Database is down'')
   \<and> request_settle database_down \<noteq> Inl (JsError (spec_error_message database_down))"
  by (simp add: ok_def validation_error_def validation_body_def database_down_def
      request_settle_def parseErrorBody_def spec_error_message_def quote_string_def)

text \<open>
  C6 (amended). For every response whose status is not a success, the request wrapper
  throws an error whose message is: the \<open>detail\<close> field of a JSON object body when
  that field is a string; else, for a body that is a JSON object or array, the body
  serialized by \<open>JSON.stringify\<close>; for a body that is a JSON string, that string
  without quotes, and for \<open>null\<close>, a boolean or a number, its serialization; for a
  body that is not JSON, the status text, and the fixed text \<open>Request failed\<close> when the
  status text is empty.
\<close>

theorem request_error_message:
  assumes "\<not> ok res"
  shows "request_settle res = Inl (JsError (parseErrorBody res))
    \<and> (fetch (request_init path options) = Inr res \<longrightarrow>
          request fetch path options = Inl (JsError (parseErrorBody res)))
    \<and> (body_json res = Inr (JObj ps) \<and> map_of ps ''detail'' = Some (JStr d)
          \<longrightarrow> parseErrorBody res = d)
    \<and> (body_json res = Inr data \<and> is_object data
          \<and> string_value (get_prop data ''detail'') = None
          \<longrightarrow> parseErrorBody res = JSON_stringify data)
    \<and> (body_json res = Inr (JStr str) \<longrightarrow> parseErrorBody res = str)
    \<and> (body_json res = Inr data \<and> (data = JNull \<or> data = JBool b \<or> data = JNum n)
          \<longrightarrow> parseErrorBody res = JSON_stringify data)
    \<and> (body_json res = Inl e \<and> statusText res \<noteq> '''' \<longrightarrow> parseErrorBody res = statusText res)
    \<and> (body_json res = Inl e \<and> statusText res = ''''
          \<longrightarrow> parseErrorBody res = ''Request failed'')"
proof -
  have thrown: "request_settle res = Inl (JsError (parseErrorBody res))"
    using assms by (simp add: request_settle_def)
  then have "request fetch path options = Inl (JsError (parseErrorBody res))"
    if "fetch (request_init path options) = Inr res"
    using that by (simp add: request_def)
  with thrown parseErrorBody_cases [of res ps d data str b n e] show ?thesis
    by blast
qed

theorem request_error_message_witness:
  "\<not> ok not_found
   \<and> request_settle not_found = Inl (JsError ''Todo not found'')
   \<and> \<not> ok validation_error
   \<and> request_settle validation_error = Inl (JsError (JSON_stringify validation_body))
   \<and> \<not> ok bad_gateway
   \<and> request_settle bad_gateway = Inl (JsError ''Request failed'')"
proof -
  have nf: "\<not> ok not_found" and ve: "\<not> ok validation_error" and bg: "\<not> ok bad_gateway"
    by (simp_all add: ok_def not_found_def validation_error_def bad_gateway_def)
  show ?thesis
    using request_error_message [OF nf, where ps = "[(''detail'', JStr ''Todo not found'')]"
        and d = "''Todo not found''"]
      request_error_message [OF ve, where data = validation_body]
      request_error_message [OF bg, where e = "JsError ''Unexpected token < in JSON at position 0''"]
      nf ve bg
    by (simp add: not_found_def validation_error_def validation_body_def bad_gateway_def)
qed

section \<open>Refresh\<close>

text \<open>
  A list call that succeeds does not always replace the list. The request wrapper
  resolves to \<^verbatim>\<open>null\<close> for a response with status 204; reading the \<open>items\<close> of
  \<^verbatim>\<open>null\<close> throws inside the \<^verbatim>\<open>try\<close> block, so the list stays as it was (it does
  not become the empty list) and an error is shown.
\<close>

theorem refresh_null_result:
  "listTodos (\<lambda>q. Inr no_content) = Inr JNull
   \<and> todos (refresh two_todos (Inr NullData)) = [milk, bread]
   \<and> todos (refresh two_todos (Inr NullData)) \<noteq> []
   \<and> error (refresh two_todos (Inr NullData)) = null_items_message
   \<and> error (refresh two_todos (Inr NullData)) \<noteq> ''''"
proof -
  have "listTodos (\<lambda>q. Inr no_content) = Inr JNull"
    by (simp add: listTodos_def request_def request_settle_def ok_def no_content_def)
  moreover have "refresh two_todos (Inr NullData) = two_todos\<lparr>error := null_items_message\<rparr>"
    by (simp add: refresh_def refresh_begin_def refresh_settle_def refresh_try_def Let_def
        two_todos_def init_state_def)
  ultimately show ?thesis
    by (simp add: two_todos_def null_items_message_def)
qed

text \<open>
  C7 (amended). Refresh clears the error and sets \<open>loading\<close> before it calls the list
  operation. When the call resolves to a result that is not \<^verbatim>\<open>null\<close>, the list becomes
  the \<open>items\<close> of the result, or the empty list when the result has no such field, and
  the error stays empty. When the call resolves to \<^verbatim>\<open>null\<close>, or fails, the list stays
  as it was and the error is the message of what was thrown: the engine's message for
  reading a property of \<^verbatim>\<open>null\<close>, or the message of the failure. In every case
  \<open>loading\<close> is false at the end. The code after the call does the same on whatever
  state it finds.
\<close>

theorem refresh_contract:
  "error (fst (refresh_begin s)) = '''' \<and> loading (fst (refresh_begin s))
   \<and> todos (fst (refresh_begin s)) = todos s
   \<and> snd (refresh_begin s) = ListTodos
   \<and> todos (refresh s (Inr (ObjectData \<lparr>items = Some xs, list_total = n\<rparr>))) = xs
   \<and> todos (refresh s (Inr (ObjectData \<lparr>items = None, list_total = n\<rparr>))) = []
   \<and> error (refresh s (Inr (ObjectData d))) = ''''
   \<and> todos (refresh s (Inr NullData)) = todos s
   \<and> error (refresh s (Inr NullData)) = null_items_message
   \<and> todos (refresh s (Inl e)) = todos s
   \<and> error (refresh s (Inl (JsError m))) = m
   \<and> todos (refresh_settle s' (Inr (ObjectData \<lparr>items = Some xs, list_total = n\<rparr>))) = xs
   \<and> todos (refresh_settle s' (Inr (ObjectData \<lparr>items = None, list_total = n\<rparr>))) = []
   \<and> todos (refresh_settle s' (Inr NullData)) = todos s'
   \<and> todos (refresh_settle s' (Inl e)) = todos s'
   \<and> \<not> loading (refresh s r)"
proof -
  have start: "error (fst (refresh_begin s)) = '''' \<and> loading (fst (refresh_begin s))
      \<and> todos (fst (refresh_begin s)) = todos s \<and> snd (refresh_begin s) = ListTodos"
    by (simp add: refresh_begin_def Let_def)
  have object: "todos (refresh_settle s' (Inr (ObjectData \<lparr>items = Some xs, list_total = n\<rparr>))) = xs
      \<and> todos (refresh_settle s' (Inr (ObjectData \<lparr>items = None, list_total = n\<rparr>))) = []
      \<and> error (refresh_settle s' (Inr (ObjectData d))) = error s'" for s'
    by (cases "items d") (simp_all add: refresh_settle_def refresh_try_def Let_def)
  have thrown: "todos (refresh_settle s' (Inr NullData)) = todos s'
      \<and> error (refresh_settle s' (Inr NullData)) = null_items_message
      \<and> todos (refresh_settle s' (Inl e)) = todos s'
      \<and> error (refresh_settle s' (Inl (JsError m))) = m" for s'
    by (simp add: refresh_settle_def refresh_try_def Let_def)
  have cleared: "\<not> loading (refresh_settle s' r)" for s'
    by (simp add: refresh_settle_def Let_def)
  show ?thesis
    using start object [of s'] object [of "fst (refresh_begin s)"]
      thrown [of s'] thrown [of "fst (refresh_begin s)"] cleared [of "fst (refresh_begin s)"]
    by (simp add: refresh_def)
qed

section \<open>The guard against empty titles\<close>

text \<open>
  C8. When the draft is empty or made of white space only, add issues no call and
  returns the controller state as it was, and the commit of the inline editor issues no
  call and changes neither the controller state nor the state of the row.
\<close>

theorem empty_title_guard:
  assumes "\<forall>c\<in>set d. is_ws c"
  shows "handleAdd_begin (setNewTitle s d) = (setNewTitle s d, None)
    \<and> handleAdd (setNewTitle s d) r = setNewTitle s d
    \<and> commitEdit (it\<lparr>draftTitle := d\<rparr>) td s r' = (it\<lparr>draftTitle := d\<rparr>, s, None, Inr ())"
  using trim_blank [OF assms]
  by (simp add: handleAdd_def handleAdd_begin_def commitEdit_def setNewTitle_def)

theorem empty_title_guard_witness:
  "handleAdd_begin (setNewTitle two_todos ''   '') = (setNewTitle two_todos ''   '', None)
   \<and> handleAdd (setNewTitle two_todos ''   '') (Inr milk) = setNewTitle two_todos ''   ''
   \<and> commitEdit \<lparr>isEditing = True, draftTitle = ''   ''\<rparr> bread two_todos (Inr bread)
       = (\<lparr>isEditing = True, draftTitle = ''   ''\<rparr>, two_todos, None, Inr ())"
proof -
  have blank: "\<forall>c\<in>set ''   ''. is_ws c"
    by (simp add: is_ws_def)
  show ?thesis
    using empty_title_guard [OF blank, of two_todos "Inr milk"
        "\<lparr>isEditing = True, draftTitle = ''   ''\<rparr>" bread "Inr bread"]
    by simp
qed

section \<open>Toggle and delete of an id that is not in the list\<close>

text \<open>
  C10. For an id that no todo of the list has, toggle and delete still issue their call
  for that id; their optimistic change leaves the list as it is, and so does the success
  of the call. Update of a title, unlike them, issues no call for such an id.
\<close>

theorem toggle_delete_absent_id:
  assumes "i \<notin> todo_id ` set (todos s)"
  shows "call (snd (handleToggle_begin s i)) = ToggleTodo i
    \<and> todos (fst (handleToggle_begin s i)) = todos s
    \<and> todos (handleToggle s i (Inr u)) = todos s
    \<and> call (snd (handleDelete_begin s i)) = DeleteTodo i
    \<and> todos (fst (handleDelete_begin s i)) = todos s
    \<and> todos (handleDelete s i (Inr ())) = todos s
    \<and> snd (handleUpdateTitle_begin s i ttl) = None"
  using assms
  by (simp add: handleToggle_def handleToggle_begin_def handleToggle_settle_def
      handleDelete_def handleDelete_begin_def handleDelete_settle_def
      handleUpdateTitle_begin_def Let_def map_id_absent filter_id_absent
      find_id_None [THEN iffD2])

theorem toggle_delete_absent_id_witness:
  "7 \<notin> todo_id ` set (todos two_todos)
   \<and> call (snd (handleToggle_begin two_todos 7)) = ToggleTodo 7
   \<and> todos (handleToggle two_todos 7 (Inr \<lparr>todo_id = 7, title = ''Elsewhere'', completed = True\<rparr>))
       = [milk, bread]
   \<and> call (snd (handleDelete_begin two_todos 7)) = DeleteTodo 7
   \<and> todos (handleDelete two_todos 7 (Inr ())) = [milk, bread]"
  using toggle_delete_absent_id [of 7 two_todos
      "\<lparr>todo_id = 7, title = ''Elsewhere'', completed = True\<rparr>" "''x''"]
  by (simp add: two_todos_def milk_def bread_def init_state_def)

end
